theory Spec2Isabelle
  imports Main "HOL-Library.Word"
begin

unbundle bit_operations_syntax

section \<open>Python strings\<close>

text \<open>
  A Python \<open>str\<close> is a sequence of Unicode code points, so it is modelled as a list of
  natural numbers (the emoji and the accented letter of the program's messages are single
  code points). \<open>lit\<close> turns an ASCII literal into such a sequence.
\<close>

type_synonym pystr = "nat list"

definition lit :: "string \<Rightarrow> pystr" where
  "lit s = map of_char s"

text \<open>
  \<open>str.isspace\<close> on one code point: the code points that \<open>str.strip()\<close> removes.
\<close>

definition isspace :: "nat \<Rightarrow> bool" where
  "isspace c \<longleftrightarrow>
     (9 \<le> c \<and> c \<le> 13) \<or> (28 \<le> c \<and> c \<le> 32) \<or> c = 133 \<or> c = 160 \<or> c = 5760 \<or>
     (8192 \<le> c \<and> c \<le> 8202) \<or> c = 8232 \<or> c = 8233 \<or> c = 8239 \<or> c = 8287 \<or> c = 12288"

definition strip :: "pystr \<Rightarrow> pystr" where
  "strip s = rev (dropWhile isspace (rev (dropWhile isspace s)))"

text \<open>
  \<open>str.lower()\<close>. The program lower-cases an error text only to look for two ASCII
  phrases in it. The model folds the ASCII capitals and leaves every other code point as
  it is. Python also maps non-ASCII capitals, but the only code points outside ASCII whose
  lower case contains an ASCII letter are U+212A (giving \<open>k\<close>, a letter of neither
  phrase) and U+0130 (giving \<open>i\<close> followed by U+0307, where both phrases need \<open>n\<close>
  after their only \<open>i\<close>), so the two membership tests have the same value.
\<close>

definition lower_cp :: "nat \<Rightarrow> nat" where
  "lower_cp c = (if 65 \<le> c \<and> c \<le> 90 then c + 32 else c)"

definition lower :: "pystr \<Rightarrow> pystr" where
  "lower s = map lower_cp s"

text \<open>\<open>p in s\<close> on strings: \<open>p\<close> occurs in \<open>s\<close> as a contiguous substring.\<close>

fun startswith :: "pystr \<Rightarrow> pystr \<Rightarrow> bool" where
  "startswith s [] = True"
| "startswith [] (c # p) = False"
| "startswith (d # s) (c # p) = (d = c \<and> startswith s p)"

fun py_in :: "pystr \<Rightarrow> pystr \<Rightarrow> bool" where
  "py_in p [] = (p = [])"
| "py_in p (d # s) = (startswith (d # s) p \<or> py_in p s)"

text \<open>\<open>str(n)\<close> for a non-negative integer.\<close>

fun str_nat :: "nat \<Rightarrow> pystr" where
  "str_nat n = (if n < 10 then [48 + n] else str_nat (n div 10) @ [48 + n mod 10])"

declare str_nat.simps [simp del]

section \<open>Session identifiers: \<open>str(uuid.uuid4())\<close>\<close>

text \<open>
  \<open>uuid.uuid4()\<close> draws 16 random bytes (a 128-bit integer), overwrites the variant and
  version bits, and \<open>str\<close> prints the 32 hexadecimal digits in five groups separated by
  hyphens.
\<close>

definition uuid4 :: "128 word \<Rightarrow> 128 word" where
  "uuid4 r =
     (let i1 = r AND NOT (push_bit 48 0xc000);
          i2 = i1 OR push_bit 48 0x8000;
          i3 = i2 AND NOT (push_bit 64 0xf000)
      in i3 OR push_bit 76 4)"

definition hex_digit :: "nat \<Rightarrow> nat" where
  "hex_digit d = (if d < 10 then 48 + d else 87 + d)"

fun hex_of :: "nat \<Rightarrow> nat \<Rightarrow> pystr" where
  "hex_of 0 v = []"
| "hex_of (Suc n) v = hex_of n (v div 16) @ [hex_digit (v mod 16)]"

definition str_uuid :: "128 word \<Rightarrow> pystr" where
  "str_uuid u =
     (let x = hex_of 32 (unat u)
      in take 8 x @ [45] @ take 4 (drop 8 x) @ [45] @ take 4 (drop 12 x) @ [45] @
         take 4 (drop 16 x) @ [45] @ drop 20 x)"

section \<open>Errors raised by the remote call\<close>

text \<open>
  \<open>botocore.exceptions.ClientError\<close> is the class of every error that the remote service
  answers with (an error raised while the response stream is read is a subclass of it). It
  carries the parsed error response and the name of the operation. The parsers always
  put the keys \<open>Code\<close> and \<open>Message\<close> under \<open>Error\<close>; the code is a string, the
  message is whatever the service sent in its error body: a string, or \<open>None\<close> when the
  body has a null message. Any other exception (a transport failure, a parameter
  validation failure, a decoding failure) is an \<open>Exception\<close> that is not a
  \<open>ClientError\<close>; of those the program only reads \<open>str(e)\<close>.
\<close>

record client_error =
  err_code :: pystr
  err_message :: "pystr option"
  operation_name :: pystr
  max_attempts_reached :: "nat option"

datatype exc = ClientError client_error | OtherException pystr

text \<open>
  \<open>str\<close> of a \<open>ClientError\<close> is the library's message template
  \<open>An error occurred (Code) when calling the Op operation[ (reached max retries: N)]: Message\<close>,
  in which a null message is printed as \<open>None\<close>.
\<close>

definition retry_info :: "client_error \<Rightarrow> pystr" where
  "retry_info e =
     (case max_attempts_reached e of
        None \<Rightarrow> []
      | Some n \<Rightarrow> lit '' (reached max retries: '' @ str_nat n @ lit '')'')"

definition str_client_error :: "client_error \<Rightarrow> pystr" where
  "str_client_error e =
     lit ''An error occurred ('' @ err_code e @ lit '') when calling the '' @
     operation_name e @ lit '' operation'' @ retry_info e @ lit '': '' @
     (case err_message e of None \<Rightarrow> lit ''None'' | Some m \<Rightarrow> m)"

text \<open>
  The test of lines 194 and 256:
  \<open>'context window' in s.lower() or 'memory turns' in s.lower()\<close>.
\<close>

definition is_context_window :: "pystr \<Rightarrow> bool" where
  "is_context_window s \<longleftrightarrow>
     py_in (lit ''context window'') (lower s) \<or> py_in (lit ''memory turns'') (lower s)"

section \<open>The streamed response\<close>

text \<open>
  A chunk's \<open>bytes\<close> value is represented by what \<open>.decode('utf-8')\<close> makes of it: the
  decoded text, or the \<open>UnicodeDecodeError\<close> (an \<open>Exception\<close>, given by its text) that
  decoding raises. An event may lack the key \<open>chunk\<close>, and a chunk the key \<open>bytes\<close>.
  A call to \<open>invoke_agent\<close> either raises, or returns a response whose \<open>completion\<close>
  is a finite sequence of events, after which the iteration ends normally or raises.
\<close>

datatype bytes = Utf8 pystr | Malformed pystr

fun decode :: "bytes \<Rightarrow> exc + pystr" where
  "decode (Utf8 t) = Inr t"
| "decode (Malformed m) = Inl (OtherException m)"

datatype chunk = Chunk "bytes option"

datatype event = Event "chunk option"

datatype outcome = Raises exc | Completion "event list" "exc option"

text \<open>The loop of lines 178 to 183 (and 210 to 215), with \<open>result\<close> as accumulator.\<close>

fun read_completion :: "pystr \<Rightarrow> event list \<Rightarrow> exc option \<Rightarrow> exc + pystr" where
  "read_completion result [] None = Inr result"
| "read_completion result [] (Some e) = Inl e"
| "read_completion result (Event None # evs) fin = read_completion result evs fin"
| "read_completion result (Event (Some (Chunk None)) # evs) fin =
     read_completion result evs fin"
| "read_completion result (Event (Some (Chunk (Some b))) # evs) fin =
     (case decode b of
        Inl e \<Rightarrow> Inl e
      | Inr t \<Rightarrow> read_completion (result @ t) evs fin)"

section \<open>Module state and the outside world\<close>

record invocation =
  agentId :: pystr
  agentAliasId :: pystr
  sessionId :: pystr
  inputText :: pystr

text \<open>
  The remote agent answers a call depending on the calls made before it. The other two
  clients are only tested for being set.
\<close>

type_synonym agent_runtime = "invocation list \<Rightarrow> invocation \<Rightarrow> outcome"

datatype client = Client

record globals =
  aws_connection_status :: bool
  connection_error_message :: pystr
  s3_client :: "client option"
  bedrock_agent_runtime :: "agent_runtime option"
  bedrock_agent :: "client option"
  BEDROCK_AGENT_ID :: pystr
  BEDROCK_AGENT_ALIAS_ID :: pystr

text \<open>
  What a call of \<open>query_cooking_agent\<close> changes outside itself: the calls received by the
  remote agent so far, and the random 16-byte blocks consumed by \<open>uuid.uuid4()\<close>.
\<close>

record world =
  invocations :: "invocation list"
  os_urandom :: "nat \<Rightarrow> 128 word"
  drawn :: nat

definition new_uuid :: "world \<Rightarrow> pystr \<times> world" where
  "new_uuid w = (str_uuid (uuid4 (os_urandom w (drawn w))), w\<lparr>drawn := Suc (drawn w)\<rparr>)"

definition check_aws_connection :: "globals \<Rightarrow> bool \<times> pystr" where
  "check_aws_connection g =
     (if \<not> aws_connection_status g then
        (False, if connection_error_message g \<noteq> [] then connection_error_message g
                else lit ''AWS clients not initialized'')
      else if \<not> (s3_client g \<noteq> None \<and> bedrock_agent_runtime g \<noteq> None \<and> bedrock_agent g \<noteq> None)
      then (False, lit ''AWS clients not properly configured'')
      else (True, lit ''AWS connection OK''))"

text \<open>
  \<open>bedrock_agent_runtime.invoke_agent(...)\<close>: on an unset client the attribute access
  raises an \<open>AttributeError\<close>; otherwise the call is recorded and the agent answers.
\<close>

definition invoke_agent :: "globals \<Rightarrow> pystr \<Rightarrow> pystr \<Rightarrow> world \<Rightarrow> outcome \<times> world" where
  "invoke_agent g sid query w =
     (case bedrock_agent_runtime g of
        None \<Rightarrow>
          (Raises (OtherException
             ([39] @ lit ''NoneType'' @ [39] @ lit '' object has no attribute '' @
              [39] @ lit ''invoke_agent'' @ [39])), w)
      | Some runtime \<Rightarrow>
          (let call = \<lparr>agentId = BEDROCK_AGENT_ID g, agentAliasId = BEDROCK_AGENT_ALIAS_ID g,
                      sessionId = sid, inputText = query\<rparr>
           in (runtime (invocations w) call, w\<lparr>invocations := invocations w @ [call]\<rparr>)))"

text \<open>One attempt: the call and the loop over its stream; \<open>Inl\<close> is a raised exception.\<close>

definition attempt :: "globals \<Rightarrow> pystr \<Rightarrow> pystr \<Rightarrow> world \<Rightarrow> (exc + pystr) \<times> world" where
  "attempt g sid query w =
     (case invoke_agent g sid query w of
        (Raises e, w') \<Rightarrow> (Inl e, w')
      | (Completion evs fin, w') \<Rightarrow> (read_completion [] evs fin, w'))"

section \<open>\<open>CookingRAGSystem.query_cooking_agent\<close>\<close>

text \<open>
  The returned dictionary: the keys \<open>response\<close>, \<open>session_id\<close> and \<open>success\<close> are
  always there; \<open>new_session\<close> is \<open>None\<close> when the key is absent. The \<open>session_id\<close>
  argument is \<open>None\<close> or a string.
\<close>

record result =
  response :: pystr
  session_id :: "pystr option"
  success :: bool
  new_session :: "bool option"

text \<open>The text of lines 232 to 240.\<close>

definition no_result_text :: pystr where
  "no_result_text =
     [127859] @ lit '' I apologize, but I couldn'' @ [39] @
     lit ''t find specific information about that recipe or cooking technique in my knowledge base. '' @
     [10, 10] @ lit ''Here are some ways I can help you:'' @ [10] @
     lit ''- Ask about specific recipes (e.g., '' @ [34] @
     lit ''How do I make chocolate chip cookies?'' @ [34] @ lit '')'' @ [10] @
     lit ''- Cooking techniques (e.g., '' @ [34] @ lit ''How to properly saut'' @ [233] @
     lit '' vegetables?'' @ [34] @ lit '')'' @ [10] @
     lit ''- Ingredient substitutions (e.g., '' @ [34] @
     lit ''What can I use instead of eggs in baking?'' @ [34] @ lit '')'' @ [10] @
     lit ''- Troubleshooting cooking problems'' @ [10, 10] @
     lit ''Please try rephrasing your question or ask about a specific recipe or cooking technique!''"

text \<open>Lines 231 to 246: no usable text from either attempt.\<close>

definition no_result :: "pystr \<Rightarrow> result" where
  "no_result sid =
     \<lparr>response = no_result_text, session_id = Some sid, success = True, new_session = None\<rparr>"

text \<open>
  Lines 209 to 227, after the second call: \<open>sid\<close> is the local \<open>session_id\<close>,
  \<open>context_error\<close> the error of the first attempt.
\<close>

fun after_retry ::
  "client_error \<Rightarrow> pystr \<Rightarrow> pystr \<Rightarrow> (exc + pystr) \<times> world \<Rightarrow> (exc + result) \<times> world" where
  "after_retry context_error sid new_session_id (Inr res, w) =
     (if strip res \<noteq> [] then
        (Inr \<lparr>response = strip res, session_id = Some new_session_id, success = True,
              new_session = Some True\<rparr>, w)
      else (Inr (no_result sid), w))"
| "after_retry context_error sid new_session_id (Inl retry_error, w) =
     (Inl (ClientError context_error), w)"

text \<open>Lines 193 to 229: the handler \<open>except ClientError as context_error\<close>.\<close>

definition on_context_error ::
  "globals \<Rightarrow> pystr \<Rightarrow> pystr \<Rightarrow> client_error \<Rightarrow> world \<Rightarrow> (exc + result) \<times> world" where
  "on_context_error g query sid context_error w =
     (if is_context_window (str_client_error context_error) then
        (case new_uuid w of
           (new_session_id, w') \<Rightarrow>
             after_retry context_error sid new_session_id (attempt g new_session_id query w'))
      else (Inl (ClientError context_error), w))"

text \<open>Lines 169 to 246, after the first call.\<close>

fun after_first ::
  "globals \<Rightarrow> pystr \<Rightarrow> pystr \<Rightarrow> (exc + pystr) \<times> world \<Rightarrow> (exc + result) \<times> world" where
  "after_first g query sid (Inr res, w) =
     (if strip res \<noteq> [] then
        (Inr \<lparr>response = strip res, session_id = Some sid, success = True, new_session = None\<rparr>, w)
      else (Inr (no_result sid), w))"
| "after_first g query sid (Inl (ClientError context_error), w) =
     on_context_error g query sid context_error w"
| "after_first g query sid (Inl (OtherException m), w) = (Inl (OtherException m), w)"

text \<open>Lines 163 and 164: \<open>if not session_id: session_id = str(uuid.uuid4())\<close>.\<close>

fun default_session :: "pystr option \<Rightarrow> world \<Rightarrow> pystr \<times> world" where
  "default_session None w = new_uuid w"
| "default_session (Some s) w = (if s = [] then new_uuid w else (s, w))"

text \<open>
  The body of the outer \<open>try\<close> (lines 154 to 246). It returns a dictionary or raises;
  the second component is the local variable \<open>session_id\<close> (written \<open>session\<close>
  here) at that moment, which the handlers read.
\<close>

definition try_body ::
  "globals \<Rightarrow> pystr \<Rightarrow> pystr option \<Rightarrow> world \<Rightarrow> (exc + result) \<times> pystr option \<times> world" where
  "try_body g query session w =
     (case check_aws_connection g of
        (is_connected, message) \<Rightarrow>
          if \<not> is_connected then
            (Inr \<lparr>response = [128683] @ lit '' Cannot process your cooking query: '' @ message,
                  session_id = session, success = False, new_session = None\<rparr>,
             session, w)
          else
            (case default_session session w of
               (sid, w1) \<Rightarrow>
                 (case after_first g query sid (attempt g sid query w1) of
                    (r, w2) \<Rightarrow> (r, Some sid, w2))))"

text \<open>Lines 269 to 273 and 277 to 281: the failure dictionaries.\<close>

definition failure :: "pystr \<Rightarrow> pystr option \<Rightarrow> result" where
  "failure msg session =
     \<lparr>response = msg, session_id = session, success = False, new_session = None\<rparr>"

text \<open>
  Lines 248 to 273: the handler \<open>except ClientError as e\<close> of the outer \<open>try\<close>.
  \<open>e.response['Error'].get('Message', '')\<close> is the message of the error, \<open>None\<close>
  included, since the key is there. When the code is neither of the two that are tested
  first, line 256 calls \<open>error_message.lower()\<close>, which on \<open>None\<close> raises an
  \<open>AttributeError\<close>; raised inside a handler, it is not caught by the handler that
  follows and leaves the method.
\<close>

definition attribute_error_lower :: pystr where
  "attribute_error_lower =
     [39] @ lit ''NoneType'' @ [39] @ lit '' object has no attribute '' @ [39] @ lit ''lower'' @ [39]"

definition on_client_error ::
  "globals \<Rightarrow> client_error \<Rightarrow> pystr option \<Rightarrow> world \<Rightarrow> (exc + result) \<times> world" where
  "on_client_error g e session w =
     (let error_code = err_code e; error_message = err_message e
      in if error_code = lit ''ResourceNotFoundException'' then
           (Inr (failure (lit '' Bedrock agent not found. Please verify agent ID: '' @
                          BEDROCK_AGENT_ID g) session), w)
         else if error_code = lit ''AccessDeniedException'' then
           (Inr (failure (lit ''Access denied to Bedrock agent. Check IAM permissions.'')
                   session), w)
         else
           (case error_message of
              None \<Rightarrow> (Inl (OtherException attribute_error_lower), w)
            | Some m \<Rightarrow>
                if is_context_window m then
                  (case new_uuid w of
                     (fresh, w') \<Rightarrow>
                       (Inr \<lparr>response = lit ''Conversation too long. Starting fresh session...'',
                             session_id = Some fresh, success = True,
                             new_session = Some True\<rparr>, w'))
                else (Inr (failure (lit '' Bedrock error: '' @ m) session), w)))"

text \<open>Lines 275 to 281: the handler \<open>except Exception as e\<close>, reading \<open>str(e)\<close>.\<close>

definition on_exception :: "pystr \<Rightarrow> pystr option \<Rightarrow> world \<Rightarrow> (exc + result) \<times> world" where
  "on_exception str_e session w =
     (Inr (failure (lit ''I encountered an error while processing your cooking query: '' @ str_e)
             session), w)"

text \<open>
  The whole method: the body, and for an exception the first handler whose class it is
  an instance of. \<open>Inl\<close> in the result would be an exception leaving the method.
\<close>

fun handle :: "globals \<Rightarrow> (exc + result) \<times> pystr option \<times> world \<Rightarrow> (exc + result) \<times> world" where
  "handle g (Inr r, session, w) = (Inr r, w)"
| "handle g (Inl (ClientError e), session, w) = on_client_error g e session w"
| "handle g (Inl (OtherException m), session, w) = on_exception m session w"

definition query_cooking_agent ::
  "globals \<Rightarrow> pystr \<Rightarrow> pystr option \<Rightarrow> world \<Rightarrow> (exc + result) \<times> world" where
  "query_cooking_agent g query session w = handle g (try_body g query session w)"

text \<open>
  The classification made by lines 193 and 194: an exception of the first attempt starts
  the retry when it is a \<open>ClientError\<close> whose text contains one of the two phrases.
\<close>

fun context_window_exceeded :: "exc \<Rightarrow> bool" where
  "context_window_exceeded (ClientError e) = is_context_window (str_client_error e)"
| "context_window_exceeded (OtherException m) = False"

text \<open>
  What every returned dictionary should satisfy: a message that is not empty and, on
  success, a session identifier that is set and not empty.
\<close>

definition well_formed :: "result \<Rightarrow> bool" where
  "well_formed r \<longleftrightarrow>
     response r \<noteq> [] \<and> (success r \<longrightarrow> session_id r \<noteq> None \<and> session_id r \<noteq> Some [])"

section \<open>Example scenarios\<close>

text \<open>
  Concrete module states, worlds and remote agents on which the theorems below are
  instantiated. \<open>scripted\<close> answers the n-th call it receives with the n-th outcome of a
  script.
\<close>

definition text_event :: "pystr \<Rightarrow> event" where
  "text_event t = Event (Some (Chunk (Some (Utf8 t))))"

definition scripted :: "outcome list \<Rightarrow> agent_runtime" where
  "scripted script calls call =
     (if length calls < length script then script ! length calls
      else Raises (OtherException (lit ''Connection was closed'')))"

definition example_globals :: "outcome list \<Rightarrow> globals" where
  "example_globals script =
     \<lparr>aws_connection_status = True, connection_error_message = [],
      s3_client = Some Client, bedrock_agent_runtime = Some (scripted script),
      bedrock_agent = Some Client,
      BEDROCK_AGENT_ID = lit ''AMA9OYJSAA'', BEDROCK_AGENT_ALIAS_ID = lit ''V0XBFRQZUC''\<rparr>"

definition disconnected_globals :: globals where
  "disconnected_globals =
     \<lparr>aws_connection_status = False,
      connection_error_message = lit ''AWS credentials not found in environment variables'',
      s3_client = None, bedrock_agent_runtime = None, bedrock_agent = None,
      BEDROCK_AGENT_ID = lit ''AMA9OYJSAA'', BEDROCK_AGENT_ALIAS_ID = lit ''V0XBFRQZUC''\<rparr>"

definition example_world :: world where
  "example_world = \<lparr>invocations = [], os_urandom = (\<lambda>n. of_nat n), drawn = 0\<rparr>"

definition context_overflow :: client_error where
  "context_overflow =
     \<lparr>err_code = lit ''ValidationException'',
      err_message = Some (lit ''Session exceeded the maximum context window''),
      operation_name = lit ''InvokeAgent'', max_attempts_reached = None\<rparr>"

definition throttled :: client_error where
  "throttled =
     \<lparr>err_code = lit ''ThrottlingException'', err_message = Some (lit ''Rate exceeded''),
      operation_name = lit ''InvokeAgent'', max_attempts_reached = Some 4\<rparr>"

definition access_denied :: client_error where
  "access_denied =
     \<lparr>err_code = lit ''AccessDeniedException'',
      err_message = Some (lit ''User is not authorized to perform: bedrock:InvokeAgent''),
      operation_name = lit ''InvokeAgent'', max_attempts_reached = None\<rparr>"

definition null_message :: client_error where
  "null_message =
     \<lparr>err_code = lit ''ValidationException'', err_message = None,
      operation_name = lit ''InvokeAgent'', max_attempts_reached = None\<rparr>"

definition example_query :: pystr where
  "example_query = lit ''How do I make pizza dough at home?''"

definition example_session :: pystr where
  "example_session = lit ''3f2b8c1e-5a4d-4e6f-9a7b-0c1d2e3f4a5b''"

definition colliding_session :: pystr where
  "colliding_session = lit ''00000000-0000-4000-8000-000000000000''"

section \<open>Auxiliary facts\<close>

lemma str_uuid_nonempty: "str_uuid u \<noteq> []"
  by (simp add: str_uuid_def Let_def)

lemma new_uuid_nonempty: "new_uuid w = (sid, w') \<Longrightarrow> sid \<noteq> []"
  by (auto simp: new_uuid_def str_uuid_nonempty)

lemma default_session_nonempty: "default_session session w = (sid, w') \<Longrightarrow> sid \<noteq> []"
  by (cases session) (auto dest: new_uuid_nonempty split: if_splits)

lemma lower_append: "lower (a @ b) = lower a @ lower b"
  by (simp add: lower_def)

lemma py_in_append_left: "py_in p s \<Longrightarrow> py_in p (t @ s)"
  by (induction t) auto

lemma is_context_window_append_left: "is_context_window s \<Longrightarrow> is_context_window (t @ s)"
  by (auto simp: is_context_window_def lower_append py_in_append_left)

lemma message_context_window:
  assumes "err_message e = Some m" and "is_context_window m"
  shows "is_context_window (str_client_error e)"
proof -
  have "str_client_error e =
      (lit ''An error occurred ('' @ err_code e @ lit '') when calling the '' @
       operation_name e @ lit '' operation'' @ retry_info e @ lit '': '') @ m"
    by (simp add: str_client_error_def assms(1))
  with assms(2) show ?thesis by (simp only: is_context_window_append_left)
qed

lemma read_completion_texts:
  "read_completion acc (map text_event ts) None = Inr (acc @ concat ts)"
  by (induction ts arbitrary: acc) (auto simp: text_event_def)

lemma no_result_text_nonempty: "no_result_text \<noteq> []"
  by (simp add: no_result_text_def)

lemma query_connected:
  assumes "fst (check_aws_connection g)" and "default_session session w = (sid, w1)"
  shows "query_cooking_agent g query session w =
         handle g (fst (after_first g query sid (attempt g sid query w1)), Some sid,
                   snd (after_first g query sid (attempt g sid query w1)))"
  using assms by (auto simp: query_cooking_agent_def try_body_def split: prod.splits)

lemma diagnostic_nonempty: "\<not> fst (check_aws_connection g) \<Longrightarrow> snd (check_aws_connection g) \<noteq> []"
  by (auto simp: check_aws_connection_def lit_def split: if_splits)

lemma attempt_completion:
  "invoke_agent g sid query w = (Completion evs fin, w') \<Longrightarrow>
   attempt g sid query w = (read_completion [] evs fin, w')"
  by (simp add: attempt_def)

lemma first_text:
  assumes "fst (check_aws_connection g)" and "default_session session w = (sid, w1)"
    and "attempt g sid query w1 = (Inr t, w2)"
  shows "query_cooking_agent g query session w =
           (if strip t \<noteq> [] then
              (Inr \<lparr>response = strip t, session_id = Some sid, success = True,
                    new_session = None\<rparr>, w2)
            else (Inr (no_result sid), w2))"
  using assms by (simp add: query_connected)

lemma first_error_retried:
  assumes "fst (check_aws_connection g)" and "default_session session w = (sid, w1)"
    and "attempt g sid query w1 = (Inl (ClientError e), w2)"
    and "is_context_window (str_client_error e)"
    and "new_uuid w2 = (new_sid, w3)"
  shows "query_cooking_agent g query session w =
           handle g (fst (after_retry e sid new_sid (attempt g new_sid query w3)), Some sid,
                     snd (after_retry e sid new_sid (attempt g new_sid query w3)))"
  using assms by (simp add: query_connected on_context_error_def)

lemma first_error_not_retried:
  assumes "fst (check_aws_connection g)" and "default_session session w = (sid, w1)"
    and "attempt g sid query w1 = (Inl x, w2)"
    and "\<not> context_window_exceeded x"
  shows "query_cooking_agent g query session w = handle g (Inl x, Some sid, w2)"
  using assms by (cases x) (simp_all add: query_connected on_context_error_def)

lemma example_connected: "fst (check_aws_connection (example_globals script))"
  by (simp add: check_aws_connection_def example_globals_def)

lemma example_default_session:
  "default_session (Some example_session) w = (example_session, w)"
  by (simp add: example_session_def lit_def)

lemma example_invoke:
  "invoke_agent (example_globals script) sid query w =
     (scripted script (invocations w)
        \<lparr>agentId = lit ''AMA9OYJSAA'', agentAliasId = lit ''V0XBFRQZUC'',
         sessionId = sid, inputText = query\<rparr>,
      w\<lparr>invocations := invocations w @
        [\<lparr>agentId = lit ''AMA9OYJSAA'', agentAliasId = lit ''V0XBFRQZUC'',
          sessionId = sid, inputText = query\<rparr>]\<rparr>)"
  by (simp add: invoke_agent_def example_globals_def Let_def)

lemma hex_of_numeral:
  "hex_of (numeral k) v = hex_of (pred_numeral k) (v div 16) @ [hex_digit (v mod 16)]"
  by (simp only: numeral_eq_Suc [of k] hex_of.simps)

lemma hex_of_1: "hex_of (Suc 0) v = [hex_digit (v mod 16)]"
  by simp

lemma example_uuid_0: "str_uuid (uuid4 0) = lit ''00000000-0000-4000-8000-000000000000''"
proof -
  have u: "uuid4 0 = 0x00000000000040008000000000000000"
    by (simp add: uuid4_def)
  have h: "hex_of 32 302240678275694148452352 = lit ''00000000000040008000000000000000''"
    by (simp add: hex_of_numeral hex_of_1 hex_digit_def lit_def)
  show ?thesis
    by (simp add: str_uuid_def u h) (simp add: lit_def)
qed

lemma example_new_uuid:
  "new_uuid (example_world\<lparr>invocations := calls\<rparr>) =
     (str_uuid (uuid4 0), example_world\<lparr>invocations := calls, drawn := 1\<rparr>)"
  by (simp add: new_uuid_def example_world_def)

lemma example_context_overflow: "is_context_window (str_client_error context_overflow)"
  by (simp add: is_context_window_def str_client_error_def context_overflow_def retry_info_def
      lit_def lower_def lower_cp_def)

lemma example_colliding_session:
  "default_session (Some colliding_session) w = (colliding_session, w)"
  by (simp add: colliding_session_def lit_def)

lemma failure_well_formed: "msg \<noteq> [] \<Longrightarrow> well_formed (failure msg session)"
  by (simp add: well_formed_def failure_def)

lemma on_client_error_well_formed:
  assumes "on_client_error g e session w = (Inr r, w')"
  shows "well_formed r"
proof -
  obtain fresh w1 where u: "new_uuid w = (fresh, w1)" by (cases "new_uuid w")
  have f: "fresh \<noteq> []" using u by (rule new_uuid_nonempty)
  have "well_formed \<lparr>response = lit ''Conversation too long. Starting fresh session...'',
          session_id = Some fresh, success = True, new_session = Some True\<rparr>"
    using f by (simp add: well_formed_def lit_def)
  then show ?thesis
    using u assms
    by (auto simp: on_client_error_def Let_def failure_well_formed lit_def
             split: if_splits option.splits)
qed

lemma on_exception_well_formed:
  assumes "on_exception m session w = (Inr r, w')"
  shows "well_formed r"
  using assms by (auto simp: on_exception_def failure_well_formed lit_def)

lemma after_retry_well_formed:
  assumes "after_retry e sid new_sid x = (Inr r, w')" and "sid \<noteq> []" and "new_sid \<noteq> []"
  shows "well_formed r"
proof (cases x)
  case (Pair a w)
  with assms show ?thesis
    by (cases a) (auto simp: well_formed_def no_result_def no_result_text_nonempty split: if_splits)
qed

lemma on_context_error_well_formed:
  assumes "on_context_error g query sid e w = (Inr r, w')" and "sid \<noteq> []"
  shows "well_formed r"
proof (cases "is_context_window (str_client_error e)")
  case True
  obtain new_sid w3 where u: "new_uuid w = (new_sid, w3)" by (cases "new_uuid w")
  from u have "new_sid \<noteq> []" by (rule new_uuid_nonempty)
  moreover from assms(1) True u
  have "after_retry e sid new_sid (attempt g new_sid query w3) = (Inr r, w')"
    by (simp add: on_context_error_def)
  ultimately show ?thesis using assms(2) by (auto intro: after_retry_well_formed)
next
  case False
  with assms(1) show ?thesis by (simp add: on_context_error_def)
qed

lemma after_first_well_formed:
  assumes "after_first g query sid x = (Inr r, w')" and "sid \<noteq> []"
  shows "well_formed r"
proof (cases x)
  case (Pair a w)
  show ?thesis
  proof (cases a)
    case (Inr t)
    with Pair assms show ?thesis
      by (auto simp: well_formed_def no_result_def no_result_text_nonempty split: if_splits)
  next
    case (Inl ex)
    with Pair assms show ?thesis
      by (cases ex) (auto intro: on_context_error_well_formed)
  qed
qed

lemma try_body_well_formed:
  assumes "try_body g query session w = (Inr r, s', w')"
  shows "well_formed r"
proof (cases "fst (check_aws_connection g)")
  case False
  with assms show ?thesis
    by (auto simp: try_body_def well_formed_def split: prod.splits)
next
  case True
  obtain sid w1 where d: "default_session session w = (sid, w1)"
    by (cases "default_session session w")
  from d have n: "sid \<noteq> []" by (rule default_session_nonempty)
  from assms True d
  have "fst (after_first g query sid (attempt g sid query w1)) = Inr r"
    by (auto simp: try_body_def split: prod.splits)
  then have "after_first g query sid (attempt g sid query w1) =
               (Inr r, snd (after_first g query sid (attempt g sid query w1)))"
    by (metis prod.collapse)
  then show ?thesis using n by (rule after_first_well_formed)
qed

lemma handle_well_formed:
  assumes "handle g (a, s, w) = (Inr r, w')" and "\<And>r. a = Inr r \<Longrightarrow> well_formed r"
  shows "well_formed r"
proof (cases a)
  case (Inr r0)
  with assms show ?thesis by simp
next
  case (Inl ex)
  with assms(1) show ?thesis
    by (cases ex) (auto intro: on_client_error_well_formed on_exception_well_formed)
qed

lemma query_well_formed:
  assumes "query_cooking_agent g query session w = (Inr r, w')"
  shows "well_formed r"
proof -
  obtain a s w1 where t: "try_body g query session w = (a, s, w1)"
    by (cases "try_body g query session w")
  have "\<And>r. a = Inr r \<Longrightarrow> well_formed r"
    using t by (auto intro: try_body_well_formed)
  moreover from assms t have "handle g (a, s, w1) = (Inr r, w')"
    by (simp add: query_cooking_agent_def)
  ultimately show ?thesis by (rule handle_well_formed [rotated])
qed

text \<open>The only exception that can leave the method is the one raised at line 256.\<close>

lemma on_client_error_raises:
  assumes "on_client_error g e session w = (Inl x, w')"
  shows "x = OtherException attribute_error_lower \<and> err_message e = None \<and> w' = w"
  using assms
  by (auto simp: on_client_error_def Let_def split: if_splits option.splits prod.splits)

lemma query_raises:
  assumes "query_cooking_agent g query session w = (Inl x, w')"
  shows "x = OtherException attribute_error_lower"
proof -
  obtain a s w1 where t: "try_body g query session w = (a, s, w1)"
    by (cases "try_body g query session w")
  with assms have h: "handle g (a, s, w1) = (Inl x, w')"
    by (simp add: query_cooking_agent_def)
  show ?thesis
  proof (cases a)
    case (Inr r)
    with h show ?thesis by simp
  next
    case (Inl ex)
    with h show ?thesis
      by (cases ex) (auto simp: on_exception_def dest: on_client_error_raises)
  qed
qed

lemma retry_failed:
  assumes "fst (check_aws_connection g)" and "default_session session w = (sid, w1)"
    and "attempt g sid query w1 = (Inl (ClientError e), w2)"
    and "is_context_window (str_client_error e)"
    and "new_uuid w2 = (new_sid, w3)"
    and "attempt g new_sid query w3 = (Inl retry_error, w4)"
  shows "query_cooking_agent g query session w = on_client_error g e (Some sid) w4"
  using first_error_retried [OF assms(1-5)] assms(6) by simp

section \<open>The connectivity gate\<close>

text \<open>
  Claim C3. When the connectivity gate reports disconnected (\<open>check_aws_connection\<close>
  answers \<open>False\<close>), \<open>query_cooking_agent\<close> returns, for every query and every session
  argument, a dictionary with \<open>success = False\<close> whose response is the fixed prefix
  followed by the gate's diagnostic; that diagnostic is not empty, the session argument
  is handed back unchanged, and the outside world is left as it was: the remote agent
  receives no call.
\<close>

theorem disconnected_no_invocation:
  assumes "\<not> fst (check_aws_connection g)"
  shows "query_cooking_agent g query session w =
           (Inr \<lparr>response = [128683] @ lit '' Cannot process your cooking query: '' @
                            snd (check_aws_connection g),
                 session_id = session, success = False, new_session = None\<rparr>, w)
         \<and> snd (check_aws_connection g) \<noteq> []
         \<and> invocations (snd (query_cooking_agent g query session w)) = invocations w"
proof -
  obtain c m where cm: "check_aws_connection g = (c, m)"
    by (cases "check_aws_connection g")
  with assms have "\<not> c" by simp
  with cm have "query_cooking_agent g query session w =
           (Inr \<lparr>response = [128683] @ lit '' Cannot process your cooking query: '' @ m,
                 session_id = session, success = False, new_session = None\<rparr>, w)"
    by (simp add: query_cooking_agent_def try_body_def)
  with cm diagnostic_nonempty [OF assms] show ?thesis by simp
qed

theorem disconnected_no_invocation_witness:
  "\<not> fst (check_aws_connection disconnected_globals)
   \<and> query_cooking_agent disconnected_globals example_query None example_world =
       (Inr \<lparr>response = [128683] @ lit '' Cannot process your cooking query: '' @
                        lit ''AWS credentials not found in environment variables'',
             session_id = None, success = False, new_session = None\<rparr>, example_world)
   \<and> invocations (snd (query_cooking_agent disconnected_globals example_query None
                          example_world)) = []"
proof -
  have h: "\<not> fst (check_aws_connection disconnected_globals)"
    by (simp add: check_aws_connection_def disconnected_globals_def)
  have m: "snd (check_aws_connection disconnected_globals) =
           lit ''AWS credentials not found in environment variables''"
    by (simp add: check_aws_connection_def disconnected_globals_def lit_def)
  show ?thesis
    using h m disconnected_no_invocation [OF h, of example_query None example_world]
    by (simp add: example_world_def)
qed

section \<open>The first attempt\<close>

text \<open>
  Claim C4, as amended. When the gate is connected and the first call answers with the
  text fragments \<open>ts\<close> and no error, the response is the concatenation of all fragments
  in arrival order with the white space at both ends removed (line 188 returns
  \<open>result.strip()\<close>), provided that this text is not empty; the call succeeds under the
  session identifier used for it, without the new-session flag. For the fragments
  \<open>Bon\<close>, \<open>jour\<close> the response is exactly \<open>Bonjour\<close>.
\<close>

theorem fragments_concatenated_stripped:
  assumes "fst (check_aws_connection g)" and "default_session session w = (sid, w1)"
    and "invoke_agent g sid query w1 = (Completion (map text_event ts) None, w2)"
    and "strip (concat ts) \<noteq> []"
  shows "query_cooking_agent g query session w =
           (Inr \<lparr>response = strip (concat ts), session_id = Some sid, success = True,
                 new_session = None\<rparr>, w2)"
proof -
  have "attempt g sid query w1 = (Inr (concat ts), w2)"
    using attempt_completion [OF assms(3)] by (simp add: read_completion_texts)
  from first_text [OF assms(1,2) this] assms(4) show ?thesis by simp
qed

theorem fragments_concatenated_stripped_witness:
  "fst (check_aws_connection
          (example_globals [Completion (map text_event [lit ''Bon'', lit ''jour'']) None]))
   \<and> strip (concat [lit ''Bon'', lit ''jour'']) \<noteq> []
   \<and> fst (query_cooking_agent
          (example_globals [Completion (map text_event [lit ''Bon'', lit ''jour'']) None])
          example_query (Some example_session) example_world) =
       Inr \<lparr>response = lit ''Bonjour'', session_id = Some example_session, success = True,
            new_session = None\<rparr>"
proof -
  let ?g = "example_globals [Completion (map text_event [lit ''Bon'', lit ''jour'']) None]"
  let ?w2 = "example_world\<lparr>invocations := invocations example_world @
        [\<lparr>agentId = lit ''AMA9OYJSAA'', agentAliasId = lit ''V0XBFRQZUC'',
          sessionId = example_session, inputText = example_query\<rparr>]\<rparr>"
  have c: "fst (check_aws_connection ?g)" by (rule example_connected)
  have d: "default_session (Some example_session) example_world = (example_session, example_world)"
    by (rule example_default_session)
  have i: "invoke_agent ?g example_session example_query example_world =
             (Completion (map text_event [lit ''Bon'', lit ''jour'']) None, ?w2)"
    by (simp add: example_invoke scripted_def example_world_def)
  have s: "strip (concat [lit ''Bon'', lit ''jour'']) = lit ''Bonjour''"
    by (simp add: strip_def isspace_def lit_def)
  have n: "strip (concat [lit ''Bon'', lit ''jour'']) \<noteq> []"
    by (simp only: s) (simp add: lit_def)
  show ?thesis
    using c n fragments_concatenated_stripped [OF c d i n] by (simp only: s fst_conv simp_thms)
qed

text \<open>
  The claim without the stripping does not hold: for the fragments \<open>Bon\<close> and
  \<open>jour\<close> followed by a space the response is \<open>Bonjour\<close>, which is not their
  concatenation.
\<close>

theorem fragments_not_verbatim_counterexample:
  "fst (query_cooking_agent
          (example_globals [Completion (map text_event [lit ''Bon'', lit ''jour '']) None])
          example_query (Some example_session) example_world) =
     Inr \<lparr>response = lit ''Bonjour'', session_id = Some example_session, success = True,
          new_session = None\<rparr>
   \<and> lit ''Bonjour'' \<noteq> concat [lit ''Bon'', lit ''jour '']"
proof -
  let ?g = "example_globals [Completion (map text_event [lit ''Bon'', lit ''jour '']) None]"
  let ?w2 = "example_world\<lparr>invocations := invocations example_world @
        [\<lparr>agentId = lit ''AMA9OYJSAA'', agentAliasId = lit ''V0XBFRQZUC'',
          sessionId = example_session, inputText = example_query\<rparr>]\<rparr>"
  have c: "fst (check_aws_connection ?g)" by (rule example_connected)
  have d: "default_session (Some example_session) example_world = (example_session, example_world)"
    by (rule example_default_session)
  have i: "invoke_agent ?g example_session example_query example_world =
             (Completion (map text_event [lit ''Bon'', lit ''jour '']) None, ?w2)"
    by (simp add: example_invoke scripted_def example_world_def)
  have a: "attempt ?g example_session example_query example_world =
             (Inr (concat [lit ''Bon'', lit ''jour '']), ?w2)"
    using attempt_completion [OF i] by (simp only: read_completion_texts append_Nil)
  have s: "strip (concat [lit ''Bon'', lit ''jour '']) = lit ''Bonjour''"
    by (simp add: strip_def isspace_def lit_def)
  have n: "lit ''Bonjour'' \<noteq> []" by (simp add: lit_def)
  have q: "lit ''Bonjour'' \<noteq> concat [lit ''Bon'', lit ''jour '']" by (simp add: lit_def)
  from first_text [OF c d a] s n q show ?thesis by simp
qed

text \<open>
  Claim C5. When the gate is connected and the first call completes without error but
  the concatenated text is empty or consists of white space only, the method returns
  \<open>success = True\<close> with the fixed guidance text of lines 232 to 240, the session
  identifier that the call was made with, and no new-session flag.
\<close>

theorem empty_answer_canned:
  assumes "fst (check_aws_connection g)" and "default_session session w = (sid, w1)"
    and "attempt g sid query w1 = (Inr t, w2)" and "strip t = []"
  shows "query_cooking_agent g query session w =
           (Inr \<lparr>response = no_result_text, session_id = Some sid, success = True,
                 new_session = None\<rparr>, w2)"
  using first_text [OF assms(1-3)] assms(4) by (simp add: no_result_def)

theorem empty_answer_canned_witness:
  "fst (check_aws_connection (example_globals [Completion [text_event [32, 10]] None]))
   \<and> default_session (Some example_session) example_world = (example_session, example_world)
   \<and> strip [32, 10] = []
   \<and> query_cooking_agent (example_globals [Completion [text_event [32, 10]] None])
        example_query (Some example_session) example_world =
       (Inr \<lparr>response = no_result_text, session_id = Some example_session, success = True,
             new_session = None\<rparr>,
        example_world\<lparr>invocations :=
          [\<lparr>agentId = lit ''AMA9OYJSAA'', agentAliasId = lit ''V0XBFRQZUC'',
            sessionId = example_session, inputText = example_query\<rparr>]\<rparr>)"
proof -
  let ?g = "example_globals [Completion [text_event [32, 10]] None]"
  let ?w2 = "example_world\<lparr>invocations :=
          [\<lparr>agentId = lit ''AMA9OYJSAA'', agentAliasId = lit ''V0XBFRQZUC'',
            sessionId = example_session, inputText = example_query\<rparr>]\<rparr>"
  have c: "fst (check_aws_connection ?g)" by (rule example_connected)
  have d: "default_session (Some example_session) example_world = (example_session, example_world)"
    by (rule example_default_session)
  have a: "attempt ?g example_session example_query example_world = (Inr [32, 10], ?w2)"
    by (simp add: attempt_def example_invoke scripted_def example_world_def text_event_def)
  have s: "strip [32, 10] = []" by (simp add: strip_def isspace_def)
  show ?thesis using c d s empty_answer_canned [OF c d a s] by simp
qed

section \<open>The retry after a context-window error\<close>

text \<open>
  Claim C2, as amended. When the gate is connected, the first attempt raises a
  \<open>ClientError\<close> whose text contains \<open>context window\<close> or \<open>memory turns\<close> in any letter
  case, and the single retry under the newly generated identifier \<open>new_sid\<close> yields text
  that is not only white space, the method returns \<open>success = True\<close>, the stripped text,
  the flag \<open>new_session = True\<close> and \<open>new_sid\<close> as session identifier. That identifier is
  not empty, so it differs from an absent or empty session argument; from a session
  argument that was supplied it differs whenever the random generator has not produced
  that very identifier again, the program making no comparison of the two.
\<close>

theorem retry_success_rotates:
  assumes "fst (check_aws_connection g)" and "default_session session w = (sid, w1)"
    and "attempt g sid query w1 = (Inl (ClientError e), w2)"
    and "is_context_window (str_client_error e)"
    and "new_uuid w2 = (new_sid, w3)"
    and "attempt g new_sid query w3 = (Inr t, w4)"
    and "strip t \<noteq> []"
  shows "\<exists>r. query_cooking_agent g query session w = (Inr r, w4) \<and> success r
             \<and> new_session r = Some True \<and> response r = strip t
             \<and> session_id r = Some new_sid \<and> new_sid \<noteq> []
             \<and> (session = None \<or> session = Some [] \<longrightarrow> session_id r \<noteq> session)
             \<and> (session \<noteq> Some new_sid \<longrightarrow> session_id r \<noteq> session)"
  using first_error_retried [OF assms(1-5)] assms(6,7) new_uuid_nonempty [OF assms(5)]
  by auto

theorem retry_success_rotates_witness:
  "fst (check_aws_connection
          (example_globals [Raises (ClientError context_overflow),
                            Completion [text_event (lit ''ok'')] None]))
   \<and> is_context_window (str_client_error context_overflow)
   \<and> strip (lit ''ok'') \<noteq> []
   \<and> Some example_session \<noteq> Some (str_uuid (uuid4 0))
   \<and> (\<exists>r w'. query_cooking_agent
          (example_globals [Raises (ClientError context_overflow),
                            Completion [text_event (lit ''ok'')] None])
          example_query (Some example_session) example_world = (Inr r, w')
        \<and> success r \<and> new_session r = Some True \<and> response r = lit ''ok''
        \<and> session_id r = Some (str_uuid (uuid4 0))
        \<and> session_id r \<noteq> Some example_session
        \<and> map sessionId (invocations w') = [example_session, str_uuid (uuid4 0)])
   \<and> (\<exists>r w'. query_cooking_agent
          (example_globals [Raises (ClientError context_overflow),
                            Completion [text_event (lit ''ok'')] None])
          example_query None example_world = (Inr r, w')
        \<and> success r \<and> new_session r = Some True \<and> response r = lit ''ok''
        \<and> session_id r = Some (str_uuid (uuid4 1))
        \<and> session_id r \<noteq> None
        \<and> map sessionId (invocations w') = [str_uuid (uuid4 0), str_uuid (uuid4 1)])"
proof -
  let ?g = "example_globals [Raises (ClientError context_overflow),
                            Completion [text_event (lit ''ok'')] None]"
  let ?c1 = "\<lparr>agentId = lit ''AMA9OYJSAA'', agentAliasId = lit ''V0XBFRQZUC'',
            sessionId = example_session, inputText = example_query\<rparr>"
  let ?c2 = "\<lparr>agentId = lit ''AMA9OYJSAA'', agentAliasId = lit ''V0XBFRQZUC'',
            sessionId = str_uuid (uuid4 0), inputText = example_query\<rparr>"
  let ?c3 = "\<lparr>agentId = lit ''AMA9OYJSAA'', agentAliasId = lit ''V0XBFRQZUC'',
            sessionId = str_uuid (uuid4 1), inputText = example_query\<rparr>"
  let ?w2 = "example_world\<lparr>invocations := [?c1]\<rparr>"
  let ?w3 = "example_world\<lparr>invocations := [?c1], drawn := 1\<rparr>"
  let ?w4 = "example_world\<lparr>invocations := [?c1, ?c2], drawn := 1\<rparr>"
  let ?v1 = "example_world\<lparr>invocations := [], drawn := 1\<rparr>"
  let ?v2 = "example_world\<lparr>invocations := [?c2], drawn := 1\<rparr>"
  let ?v3 = "example_world\<lparr>invocations := [?c2], drawn := 2\<rparr>"
  let ?v4 = "example_world\<lparr>invocations := [?c2, ?c3], drawn := 2\<rparr>"
  have c: "fst (check_aws_connection ?g)" by (rule example_connected)
  have x: "is_context_window (str_client_error context_overflow)"
    by (rule example_context_overflow)
  have s: "strip (lit ''ok'') = lit ''ok''" by (simp add: strip_def isspace_def lit_def)
  have n: "strip (lit ''ok'') \<noteq> []" by (simp add: s) (simp add: lit_def)
  have f: "Some example_session \<noteq> Some (str_uuid (uuid4 0))"
    by (simp add: example_uuid_0 example_session_def lit_def)
  have d: "default_session (Some example_session) example_world = (example_session, example_world)"
    by (rule example_default_session)
  have a1: "attempt ?g example_session example_query example_world =
              (Inl (ClientError context_overflow), ?w2)"
    by (simp add: attempt_def example_invoke scripted_def example_world_def)
  have u: "new_uuid ?w2 = (str_uuid (uuid4 0), ?w3)" by (rule example_new_uuid)
  have a2: "attempt ?g (str_uuid (uuid4 0)) example_query ?w3 = (Inr (lit ''ok''), ?w4)"
    by (simp add: attempt_def example_invoke scripted_def example_world_def text_event_def)
  have first: "\<exists>r w'. query_cooking_agent ?g example_query (Some example_session) example_world =
                 (Inr r, w')
        \<and> success r \<and> new_session r = Some True \<and> response r = lit ''ok''
        \<and> session_id r = Some (str_uuid (uuid4 0))
        \<and> session_id r \<noteq> Some example_session
        \<and> map sessionId (invocations w') = [example_session, str_uuid (uuid4 0)]"
    using f retry_success_rotates [OF c d a1 x u a2 n]
    by (auto simp: s example_world_def)
  have d': "default_session None example_world = (str_uuid (uuid4 0), ?v1)"
    using example_new_uuid [of "[]"] by (simp add: example_world_def)
  have b1: "attempt ?g (str_uuid (uuid4 0)) example_query ?v1 =
              (Inl (ClientError context_overflow), ?v2)"
    by (simp add: attempt_def example_invoke scripted_def example_world_def)
  have u': "new_uuid ?v2 = (str_uuid (uuid4 1), ?v3)"
    by (simp add: new_uuid_def example_world_def)
  have b2: "attempt ?g (str_uuid (uuid4 1)) example_query ?v3 = (Inr (lit ''ok''), ?v4)"
    by (simp add: attempt_def example_invoke scripted_def example_world_def text_event_def)
  have second: "\<exists>r w'. query_cooking_agent ?g example_query None example_world = (Inr r, w')
        \<and> success r \<and> new_session r = Some True \<and> response r = lit ''ok''
        \<and> session_id r = Some (str_uuid (uuid4 1))
        \<and> session_id r \<noteq> None
        \<and> map sessionId (invocations w') = [str_uuid (uuid4 0), str_uuid (uuid4 1)]"
    using retry_success_rotates [OF c d' b1 x u' b2 n]
    by (auto simp: s example_world_def)
  from c x n f first second show ?thesis by blast
qed

text \<open>
  The claim as stated fails where it says that the returned identifier differs from the
  input: when the session argument is the identifier that the generator produces next,
  the method returns that same identifier with the new-session flag.
\<close>

theorem rotated_session_equal_counterexample:
  "context_window_exceeded (ClientError context_overflow)
   \<and> fst (query_cooking_agent
          (example_globals [Raises (ClientError context_overflow),
                            Completion [text_event (lit ''ok'')] None])
          example_query (Some colliding_session) example_world) =
       Inr \<lparr>response = lit ''ok'', session_id = Some colliding_session, success = True,
            new_session = Some True\<rparr>"
proof -
  let ?g = "example_globals [Raises (ClientError context_overflow),
                            Completion [text_event (lit ''ok'')] None]"
  let ?c1 = "\<lparr>agentId = lit ''AMA9OYJSAA'', agentAliasId = lit ''V0XBFRQZUC'',
            sessionId = colliding_session, inputText = example_query\<rparr>"
  let ?c2 = "\<lparr>agentId = lit ''AMA9OYJSAA'', agentAliasId = lit ''V0XBFRQZUC'',
            sessionId = str_uuid (uuid4 0), inputText = example_query\<rparr>"
  let ?w2 = "example_world\<lparr>invocations := [?c1]\<rparr>"
  let ?w3 = "example_world\<lparr>invocations := [?c1], drawn := 1\<rparr>"
  let ?w4 = "example_world\<lparr>invocations := [?c1, ?c2], drawn := 1\<rparr>"
  have c: "fst (check_aws_connection ?g)" by (rule example_connected)
  have x: "is_context_window (str_client_error context_overflow)"
    by (rule example_context_overflow)
  have d: "default_session (Some colliding_session) example_world =
             (colliding_session, example_world)"
    by (rule example_colliding_session)
  have a1: "attempt ?g colliding_session example_query example_world =
              (Inl (ClientError context_overflow), ?w2)"
    by (simp add: attempt_def example_invoke scripted_def example_world_def)
  have u: "new_uuid ?w2 = (str_uuid (uuid4 0), ?w3)" by (rule example_new_uuid)
  have a2: "attempt ?g (str_uuid (uuid4 0)) example_query ?w3 = (Inr (lit ''ok''), ?w4)"
    by (simp add: attempt_def example_invoke scripted_def example_world_def text_event_def)
  have s: "strip (lit ''ok'') = lit ''ok''" by (simp add: strip_def isspace_def lit_def)
  have n: "lit ''ok'' \<noteq> []" by (simp add: lit_def)
  have e: "str_uuid (uuid4 0) = colliding_session"
    by (simp add: example_uuid_0 colliding_session_def)
  have "query_cooking_agent ?g example_query (Some colliding_session) example_world =
          (Inr \<lparr>response = lit ''ok'', session_id = Some (str_uuid (uuid4 0)), success = True,
                new_session = Some True\<rparr>, ?w4)"
    using first_error_retried [OF c d a1 x u] a2 s n by simp
  then show ?thesis using x by (simp add: e)
qed

text \<open>
  Claim C9. When the first attempt raises a context-window \<open>ClientError\<close> and the retry
  under the new identifier \<open>new_sid\<close> completes with text that is empty or white space
  only, the method falls through to lines 231 to 246: \<open>success = True\<close>, the fixed
  guidance text, no new-session flag, and the session identifier \<open>sid\<close> of the first
  call, which is the identifier passed in whenever one was passed (and the one generated
  at line 164 otherwise). The identifier used for the retry is not returned: whenever it
  differs from \<open>sid\<close>, it differs from the returned one.
\<close>

theorem retry_empty_keeps_session:
  assumes "fst (check_aws_connection g)" and "default_session session w = (sid, w1)"
    and "attempt g sid query w1 = (Inl (ClientError e), w2)"
    and "is_context_window (str_client_error e)"
    and "new_uuid w2 = (new_sid, w3)"
    and "attempt g new_sid query w3 = (Inr t, w4)"
    and "strip t = []"
  shows "\<exists>r. query_cooking_agent g query session w = (Inr r, w4) \<and> success r
             \<and> response r = no_result_text \<and> new_session r = None
             \<and> session_id r = Some sid
             \<and> (\<forall>s. session = Some s \<and> s \<noteq> [] \<longrightarrow> session_id r = session)
             \<and> (new_sid \<noteq> sid \<longrightarrow> session_id r \<noteq> Some new_sid)"
proof -
  have "query_cooking_agent g query session w = (Inr (no_result sid), w4)"
    using first_error_retried [OF assms(1-5)] assms(6,7) by simp
  moreover have "\<forall>s. session = Some s \<and> s \<noteq> [] \<longrightarrow> sid = s"
    using assms(2) by auto
  ultimately show ?thesis by (auto simp: no_result_def)
qed

theorem retry_empty_keeps_session_witness:
  "fst (check_aws_connection
          (example_globals [Raises (ClientError context_overflow), Completion [] None]))
   \<and> is_context_window (str_client_error context_overflow)
   \<and> strip [] = []
   \<and> example_session \<noteq> [] \<and> str_uuid (uuid4 0) \<noteq> example_session
   \<and> (\<exists>r w'. query_cooking_agent
          (example_globals [Raises (ClientError context_overflow), Completion [] None])
          example_query (Some example_session) example_world = (Inr r, w')
        \<and> success r \<and> response r = no_result_text \<and> new_session r = None
        \<and> session_id r = Some example_session
        \<and> session_id r \<noteq> Some (str_uuid (uuid4 0))
        \<and> map sessionId (invocations w') = [example_session, str_uuid (uuid4 0)])"
proof -
  let ?g = "example_globals [Raises (ClientError context_overflow), Completion [] None]"
  let ?c1 = "\<lparr>agentId = lit ''AMA9OYJSAA'', agentAliasId = lit ''V0XBFRQZUC'',
            sessionId = example_session, inputText = example_query\<rparr>"
  let ?c2 = "\<lparr>agentId = lit ''AMA9OYJSAA'', agentAliasId = lit ''V0XBFRQZUC'',
            sessionId = str_uuid (uuid4 0), inputText = example_query\<rparr>"
  let ?w2 = "example_world\<lparr>invocations := [?c1]\<rparr>"
  let ?w3 = "example_world\<lparr>invocations := [?c1], drawn := 1\<rparr>"
  let ?w4 = "example_world\<lparr>invocations := [?c1, ?c2], drawn := 1\<rparr>"
  have c: "fst (check_aws_connection ?g)" by (rule example_connected)
  have d: "default_session (Some example_session) example_world = (example_session, example_world)"
    by (rule example_default_session)
  have a1: "attempt ?g example_session example_query example_world =
              (Inl (ClientError context_overflow), ?w2)"
    by (simp add: attempt_def example_invoke scripted_def example_world_def)
  have x: "is_context_window (str_client_error context_overflow)"
    by (rule example_context_overflow)
  have u: "new_uuid ?w2 = (str_uuid (uuid4 0), ?w3)" by (rule example_new_uuid)
  have a2: "attempt ?g (str_uuid (uuid4 0)) example_query ?w3 = (Inr [], ?w4)"
    by (simp add: attempt_def example_invoke scripted_def example_world_def)
  have s: "strip [] = []" by (simp add: strip_def)
  have e: "example_session \<noteq> []" by (simp add: example_session_def lit_def)
  have f: "str_uuid (uuid4 0) \<noteq> example_session"
    by (simp add: example_uuid_0 example_session_def lit_def)
  show ?thesis
    using c x s e f retry_empty_keeps_session [OF c d a1 x u a2 s]
    by (auto simp: example_world_def)
qed

text \<open>
  Claim C1, as amended. When the first attempt raises a context-window \<open>ClientError\<close>
  \<open>e\<close> and the retry raises too, the retry's exception \<open>retry_error\<close> is dropped and the
  outcome is computed from \<open>e\<close> alone by the handler of lines 248 to 273:
  \<open>success = False\<close> with the agent-not-found or the access-denied message when the code
  of \<open>e\<close> says so, and with \<open>Bedrock error:\<close> followed by the message of \<open>e\<close> when that
  message is a string that contains neither phrase; but when the message of \<open>e\<close> is a
  string that contains \<open>context window\<close> or \<open>memory turns\<close> (and the code is neither of
  the two above), line 256 answers \<open>success = True\<close> with the text
  \<open>Conversation too long. Starting fresh session...\<close>, one more newly generated session
  identifier and the new-session flag.
\<close>

theorem retry_failure_reports_original:
  assumes "fst (check_aws_connection g)" and "default_session session w = (sid, w1)"
    and "attempt g sid query w1 = (Inl (ClientError e), w2)"
    and "is_context_window (str_client_error e)"
    and "new_uuid w2 = (new_sid, w3)"
    and "attempt g new_sid query w3 = (Inl retry_error, w4)"
  shows "(err_code e = lit ''ResourceNotFoundException'' \<longrightarrow>
            query_cooking_agent g query session w =
              (Inr \<lparr>response = lit '' Bedrock agent not found. Please verify agent ID: '' @
                               BEDROCK_AGENT_ID g,
                    session_id = Some sid, success = False, new_session = None\<rparr>, w4))
       \<and> (err_code e \<noteq> lit ''ResourceNotFoundException'' \<and>
          err_code e = lit ''AccessDeniedException'' \<longrightarrow>
            query_cooking_agent g query session w =
              (Inr \<lparr>response = lit ''Access denied to Bedrock agent. Check IAM permissions.'',
                    session_id = Some sid, success = False, new_session = None\<rparr>, w4))
       \<and> (err_code e \<noteq> lit ''ResourceNotFoundException'' \<and>
          err_code e \<noteq> lit ''AccessDeniedException'' \<and>
          err_message e = Some m \<and> \<not> is_context_window m \<longrightarrow>
            query_cooking_agent g query session w =
              (Inr \<lparr>response = lit '' Bedrock error: '' @ m,
                    session_id = Some sid, success = False, new_session = None\<rparr>, w4))
       \<and> (err_code e \<noteq> lit ''ResourceNotFoundException'' \<and>
          err_code e \<noteq> lit ''AccessDeniedException'' \<and>
          err_message e = Some m \<and> is_context_window m \<longrightarrow>
            query_cooking_agent g query session w =
              (Inr \<lparr>response = lit ''Conversation too long. Starting fresh session...'',
                    session_id = Some (fst (new_uuid w4)), success = True,
                    new_session = Some True\<rparr>, snd (new_uuid w4)))"
  unfolding retry_failed [OF assms]
  by (simp add: on_client_error_def failure_def Let_def split: prod.splits)

theorem retry_failure_reports_original_witness:
  "fst (check_aws_connection
          (example_globals [Raises (ClientError context_overflow), Raises (ClientError throttled)]))
   \<and> is_context_window (str_client_error context_overflow)
   \<and> err_code context_overflow \<noteq> lit ''ResourceNotFoundException''
   \<and> err_code context_overflow \<noteq> lit ''AccessDeniedException''
   \<and> err_message context_overflow = Some (lit ''Session exceeded the maximum context window'')
   \<and> is_context_window (lit ''Session exceeded the maximum context window'')
   \<and> fst (query_cooking_agent
          (example_globals [Raises (ClientError context_overflow), Raises (ClientError throttled)])
          example_query (Some example_session) example_world) =
       Inr \<lparr>response = lit ''Conversation too long. Starting fresh session...'',
            session_id = Some (str_uuid (uuid4 1)), success = True, new_session = Some True\<rparr>"
proof -
  let ?g = "example_globals [Raises (ClientError context_overflow), Raises (ClientError throttled)]"
  let ?c1 = "\<lparr>agentId = lit ''AMA9OYJSAA'', agentAliasId = lit ''V0XBFRQZUC'',
            sessionId = example_session, inputText = example_query\<rparr>"
  let ?c2 = "\<lparr>agentId = lit ''AMA9OYJSAA'', agentAliasId = lit ''V0XBFRQZUC'',
            sessionId = str_uuid (uuid4 0), inputText = example_query\<rparr>"
  let ?w2 = "example_world\<lparr>invocations := [?c1]\<rparr>"
  let ?w3 = "example_world\<lparr>invocations := [?c1], drawn := 1\<rparr>"
  let ?w4 = "example_world\<lparr>invocations := [?c1, ?c2], drawn := 1\<rparr>"
  have c: "fst (check_aws_connection ?g)" by (rule example_connected)
  have d: "default_session (Some example_session) example_world = (example_session, example_world)"
    by (rule example_default_session)
  have a1: "attempt ?g example_session example_query example_world =
              (Inl (ClientError context_overflow), ?w2)"
    by (simp add: attempt_def example_invoke scripted_def example_world_def)
  have x: "is_context_window (str_client_error context_overflow)"
    by (rule example_context_overflow)
  have u: "new_uuid ?w2 = (str_uuid (uuid4 0), ?w3)" by (rule example_new_uuid)
  have a2: "attempt ?g (str_uuid (uuid4 0)) example_query ?w3 = (Inl (ClientError throttled), ?w4)"
    by (simp add: attempt_def example_invoke scripted_def example_world_def)
  have k1: "err_code context_overflow \<noteq> lit ''ResourceNotFoundException''"
    by (simp add: context_overflow_def lit_def)
  have k2: "err_code context_overflow \<noteq> lit ''AccessDeniedException''"
    by (simp add: context_overflow_def lit_def)
  have m: "err_message context_overflow = Some (lit ''Session exceeded the maximum context window'')"
    by (simp add: context_overflow_def)
  have m': "is_context_window (lit ''Session exceeded the maximum context window'')"
    by (simp add: is_context_window_def lit_def lower_def lower_cp_def)
  have n: "fst (new_uuid ?w4) = str_uuid (uuid4 1)"
    by (simp add: new_uuid_def example_world_def)
  from retry_failure_reports_original [OF c d a1 x u a2] k1 k2 m m'
  have "query_cooking_agent ?g example_query (Some example_session) example_world =
          (Inr \<lparr>response = lit ''Conversation too long. Starting fresh session...'',
                session_id = Some (fst (new_uuid ?w4)), success = True,
                new_session = Some True\<rparr>, snd (new_uuid ?w4))"
    by blast
  then have "fst (query_cooking_agent ?g example_query (Some example_session) example_world) =
          Inr \<lparr>response = lit ''Conversation too long. Starting fresh session...'',
               session_id = Some (str_uuid (uuid4 1)), success = True,
               new_session = Some True\<rparr>"
    by (simp only: fst_conv n)
  with c x k1 k2 m m' show ?thesis by blast
qed

text \<open>
  The claim as stated fails: the first call raises a validation error whose message
  speaks of the context window, the retry fails with a closed connection, and the method
  returns \<open>success = True\<close>.
\<close>

theorem retry_failure_success_counterexample:
  "context_window_exceeded (ClientError context_overflow)
   \<and> fst (attempt (example_globals [Raises (ClientError context_overflow)])
            example_session example_query example_world) = Inl (ClientError context_overflow)
   \<and> fst (attempt (example_globals [Raises (ClientError context_overflow)])
            (str_uuid (uuid4 0)) example_query
            (example_world\<lparr>invocations :=
               [\<lparr>agentId = lit ''AMA9OYJSAA'', agentAliasId = lit ''V0XBFRQZUC'',
                 sessionId = example_session, inputText = example_query\<rparr>], drawn := 1\<rparr>)) =
       Inl (OtherException (lit ''Connection was closed''))
   \<and> fst (query_cooking_agent (example_globals [Raises (ClientError context_overflow)])
            example_query (Some example_session) example_world) =
       Inr \<lparr>response = lit ''Conversation too long. Starting fresh session...'',
            session_id = Some (str_uuid (uuid4 1)), success = True, new_session = Some True\<rparr>"
proof -
  let ?g = "example_globals [Raises (ClientError context_overflow)]"
  let ?c1 = "\<lparr>agentId = lit ''AMA9OYJSAA'', agentAliasId = lit ''V0XBFRQZUC'',
            sessionId = example_session, inputText = example_query\<rparr>"
  let ?c2 = "\<lparr>agentId = lit ''AMA9OYJSAA'', agentAliasId = lit ''V0XBFRQZUC'',
            sessionId = str_uuid (uuid4 0), inputText = example_query\<rparr>"
  let ?w2 = "example_world\<lparr>invocations := [?c1]\<rparr>"
  let ?w3 = "example_world\<lparr>invocations := [?c1], drawn := 1\<rparr>"
  let ?w4 = "example_world\<lparr>invocations := [?c1, ?c2], drawn := 1\<rparr>"
  have c: "fst (check_aws_connection ?g)" by (rule example_connected)
  have d: "default_session (Some example_session) example_world = (example_session, example_world)"
    by (rule example_default_session)
  have a1: "attempt ?g example_session example_query example_world =
              (Inl (ClientError context_overflow), ?w2)"
    by (simp add: attempt_def example_invoke scripted_def example_world_def)
  have x: "is_context_window (str_client_error context_overflow)"
    by (rule example_context_overflow)
  have u: "new_uuid ?w2 = (str_uuid (uuid4 0), ?w3)" by (rule example_new_uuid)
  have a2: "attempt ?g (str_uuid (uuid4 0)) example_query ?w3 =
              (Inl (OtherException (lit ''Connection was closed'')), ?w4)"
    by (simp add: attempt_def example_invoke scripted_def example_world_def)
  have k1: "err_code context_overflow \<noteq> lit ''ResourceNotFoundException''"
    by (simp add: context_overflow_def lit_def)
  have k2: "err_code context_overflow \<noteq> lit ''AccessDeniedException''"
    by (simp add: context_overflow_def lit_def)
  have m: "err_message context_overflow = Some (lit ''Session exceeded the maximum context window'')"
    by (simp add: context_overflow_def)
  have m': "is_context_window (lit ''Session exceeded the maximum context window'')"
    by (simp add: is_context_window_def lit_def lower_def lower_cp_def)
  have n: "new_uuid ?w4 = (str_uuid (uuid4 1), ?w4\<lparr>drawn := 2\<rparr>)"
    by (simp add: new_uuid_def example_world_def)
  have "query_cooking_agent ?g example_query (Some example_session) example_world =
          on_client_error ?g context_overflow (Some example_session) ?w4"
    by (rule retry_failed [OF c d a1 x u a2])
  then have "fst (query_cooking_agent ?g example_query (Some example_session) example_world) =
       Inr \<lparr>response = lit ''Conversation too long. Starting fresh session...'',
            session_id = Some (str_uuid (uuid4 1)), success = True, new_session = Some True\<rparr>"
    using k1 k2 m m' n by (simp add: on_client_error_def Let_def)
  with x a1 a2 show ?thesis by simp
qed

section \<open>Other failures of the remote call\<close>

text \<open>
  Claim C8 says that an error of the first call that is not a context-window error gives
  \<open>success = False\<close> with a message for its category, the same session identifier and
  no new-session flag. At an unclassified error whose message is null the program does
  not do so: the service answers the first call with a \<open>ValidationException\<close> without
  message text, the error is not classified as context-window, is raised again at line
  229, and line 256 raises an \<open>AttributeError\<close> that leaves the method; no dictionary
  is returned.
\<close>

theorem unclassified_null_message_raises:
  "\<not> context_window_exceeded (ClientError null_message)
   \<and> fst (attempt (example_globals [Raises (ClientError null_message)])
            example_session example_query example_world) = Inl (ClientError null_message)
   \<and> fst (query_cooking_agent (example_globals [Raises (ClientError null_message)])
            example_query (Some example_session) example_world) =
       Inl (OtherException attribute_error_lower)"
proof -
  let ?g = "example_globals [Raises (ClientError null_message)]"
  let ?w2 = "example_world\<lparr>invocations :=
        [\<lparr>agentId = lit ''AMA9OYJSAA'', agentAliasId = lit ''V0XBFRQZUC'',
          sessionId = example_session, inputText = example_query\<rparr>]\<rparr>"
  have c: "fst (check_aws_connection ?g)" by (rule example_connected)
  have d: "default_session (Some example_session) example_world = (example_session, example_world)"
    by (rule example_default_session)
  have a: "attempt ?g example_session example_query example_world =
             (Inl (ClientError null_message), ?w2)"
    by (simp add: attempt_def example_invoke scripted_def example_world_def)
  have x: "\<not> context_window_exceeded (ClientError null_message)"
    by (simp add: is_context_window_def str_client_error_def null_message_def retry_info_def
        lit_def lower_def lower_cp_def)
  have k: "err_code null_message \<noteq> lit ''ResourceNotFoundException''"
      "err_code null_message \<noteq> lit ''AccessDeniedException''"
      "err_message null_message = None"
    by (simp_all add: null_message_def lit_def)
  have "query_cooking_agent ?g example_query (Some example_session) example_world =
          on_client_error ?g null_message (Some example_session) ?w2"
    using first_error_not_retried [OF c d a x] by simp
  then have "fst (query_cooking_agent ?g example_query (Some example_session) example_world) =
          Inl (OtherException attribute_error_lower)"
    using k by (simp add: on_client_error_def Let_def)
  with x a show ?thesis by simp
qed

text \<open>
  Apart from that case the first error is reported as the claim says: when the exception
  \<open>x\<close> of the first attempt is not classified as context-window-exceeded and is not a
  \<open>ClientError\<close> with a null message and a code other than the two tested first, the
  method returns \<open>success = False\<close>, the session identifier the call was made with, no
  new-session flag and the message of the category.
\<close>

lemma other_error_reported:
  assumes "fst (check_aws_connection g)" and "default_session session w = (sid, w1)"
    and "attempt g sid query w1 = (Inl x, w2)"
    and "\<not> context_window_exceeded x"
    and "\<And>e. x = ClientError e \<Longrightarrow>
           err_code e = lit ''ResourceNotFoundException'' \<or>
           err_code e = lit ''AccessDeniedException'' \<or> err_message e \<noteq> None"
  shows "\<exists>r. query_cooking_agent g query session w = (Inr r, w2) \<and> \<not> success r
             \<and> session_id r = Some sid \<and> new_session r = None
             \<and> response r =
                 (case x of
                    ClientError e \<Rightarrow>
                      if err_code e = lit ''ResourceNotFoundException'' then
                        lit '' Bedrock agent not found. Please verify agent ID: '' @
                        BEDROCK_AGENT_ID g
                      else if err_code e = lit ''AccessDeniedException'' then
                        lit ''Access denied to Bedrock agent. Check IAM permissions.''
                      else lit '' Bedrock error: '' @ the (err_message e)
                  | OtherException m \<Rightarrow>
                      lit ''I encountered an error while processing your cooking query: '' @ m)"
proof (cases x)
  case (ClientError e)
  have n: "\<And>m. err_message e = Some m \<Longrightarrow> \<not> is_context_window m"
    using assms(4) ClientError message_context_window [of e] by auto
  from assms(5) [OF ClientError] n first_error_not_retried [OF assms(1-4)] ClientError
  show ?thesis
    by (auto simp: on_client_error_def failure_def Let_def split: option.splits)
next
  case (OtherException m)
  with first_error_not_retried [OF assms(1-4)] show ?thesis
    by (simp add: on_exception_def failure_def)
qed

section \<open>Every returned dictionary\<close>

text \<open>
  Claim C6. Whatever the query, the session argument, the module state and the behaviour
  of the remote agent: a returned dictionary with \<open>success = True\<close> carries a session
  identifier that is set and is not the empty string.
\<close>

theorem success_has_session:
  assumes "query_cooking_agent g query session w = (Inr r, w')" and "success r"
  shows "\<exists>s. session_id r = Some s \<and> s \<noteq> []"
  using query_well_formed [OF assms(1)] assms(2) by (auto simp: well_formed_def)

theorem success_has_session_witness:
  "query_cooking_agent (example_globals [Completion [text_event (lit ''ok'')] None])
     example_query None example_world =
     (Inr \<lparr>response = lit ''ok'', session_id = Some (str_uuid (uuid4 0)), success = True,
           new_session = None\<rparr>,
      example_world\<lparr>invocations :=
        [\<lparr>agentId = lit ''AMA9OYJSAA'', agentAliasId = lit ''V0XBFRQZUC'',
          sessionId = str_uuid (uuid4 0), inputText = example_query\<rparr>], drawn := 1\<rparr>)
   \<and> (\<exists>s. Some (str_uuid (uuid4 0)) = Some s \<and> s \<noteq> [])"
proof -
  let ?g = "example_globals [Completion [text_event (lit ''ok'')] None]"
  let ?r = "\<lparr>response = lit ''ok'', session_id = Some (str_uuid (uuid4 0)), success = True,
           new_session = None\<rparr>"
  let ?w1 = "example_world\<lparr>invocations := [], drawn := 1\<rparr>"
  let ?w2 = "example_world\<lparr>invocations :=
        [\<lparr>agentId = lit ''AMA9OYJSAA'', agentAliasId = lit ''V0XBFRQZUC'',
          sessionId = str_uuid (uuid4 0), inputText = example_query\<rparr>], drawn := 1\<rparr>"
  have c: "fst (check_aws_connection ?g)" by (rule example_connected)
  have d: "default_session None example_world = (str_uuid (uuid4 0), ?w1)"
    using example_new_uuid [of "[]"] by (simp add: example_world_def)
  have a: "attempt ?g (str_uuid (uuid4 0)) example_query ?w1 = (Inr (lit ''ok''), ?w2)"
    by (simp add: attempt_def example_invoke scripted_def example_world_def text_event_def)
  have s: "strip (lit ''ok'') = lit ''ok''" by (simp add: strip_def isspace_def lit_def)
  have n: "lit ''ok'' \<noteq> []" by (simp add: lit_def)
  have q: "query_cooking_agent ?g example_query None example_world = (Inr ?r, ?w2)"
    using first_text [OF c d a] s n by simp
  have t: "success ?r" by simp
  from success_has_session [OF q t] q show ?thesis by simp
qed

text \<open>
  Claim C10. Whatever the inputs and the behaviour of the remote agent, a returned
  dictionary with \<open>success = True\<close> carries a response text that is not empty.
\<close>

theorem success_has_text:
  assumes "query_cooking_agent g query session w = (Inr r, w')" and "success r"
  shows "response r \<noteq> []"
  using query_well_formed [OF assms(1)] assms(2) by (auto simp: well_formed_def)

theorem success_has_text_witness:
  "query_cooking_agent
     (example_globals [Completion [text_event [32, 10], text_event (lit ''Knead it. '')] None])
     example_query (Some example_session) example_world =
     (Inr \<lparr>response = lit ''Knead it.'', session_id = Some example_session, success = True,
           new_session = None\<rparr>,
      example_world\<lparr>invocations :=
        [\<lparr>agentId = lit ''AMA9OYJSAA'', agentAliasId = lit ''V0XBFRQZUC'',
          sessionId = example_session, inputText = example_query\<rparr>]\<rparr>)
   \<and> lit ''Knead it.'' \<noteq> []"
proof -
  let ?g = "example_globals
              [Completion [text_event [32, 10], text_event (lit ''Knead it. '')] None]"
  let ?r = "\<lparr>response = lit ''Knead it.'', session_id = Some example_session, success = True,
           new_session = None\<rparr>"
  let ?w2 = "example_world\<lparr>invocations :=
        [\<lparr>agentId = lit ''AMA9OYJSAA'', agentAliasId = lit ''V0XBFRQZUC'',
          sessionId = example_session, inputText = example_query\<rparr>]\<rparr>"
  have c: "fst (check_aws_connection ?g)" by (rule example_connected)
  have d: "default_session (Some example_session) example_world = (example_session, example_world)"
    by (rule example_default_session)
  have a: "attempt ?g example_session example_query example_world =
             (Inr ([32, 10] @ lit ''Knead it. ''), ?w2)"
    by (simp add: attempt_def example_invoke scripted_def example_world_def text_event_def)
  have s: "strip ([32, 10] @ lit ''Knead it. '') = lit ''Knead it.''"
    by (simp add: strip_def isspace_def lit_def)
  have n: "lit ''Knead it.'' \<noteq> []" by (simp add: lit_def)
  have q: "query_cooking_agent ?g example_query (Some example_session) example_world = (Inr ?r, ?w2)"
    using first_text [OF c d a] s n by simp
  have t: "success ?r" by simp
  from success_has_text [OF q t] q show ?thesis by simp
qed

text \<open>
  Claim C7 says that no error of the remote service leaves the method as an exception.
  The two handlers of the outer \<open>try\<close> are written to that end, but the first of them
  raises itself when the error's message is null: the service answers the call with a
  \<open>ValidationException\<close> without message text, no session identifier having been passed
  in, and the method ends with an \<open>AttributeError\<close> instead of returning a dictionary.
\<close>

theorem attribute_error_leaves_method:
  "query_cooking_agent (example_globals [Raises (ClientError null_message)])
     example_query None example_world =
     (Inl (OtherException attribute_error_lower),
      example_world\<lparr>invocations :=
        [\<lparr>agentId = lit ''AMA9OYJSAA'', agentAliasId = lit ''V0XBFRQZUC'',
          sessionId = str_uuid (uuid4 0), inputText = example_query\<rparr>], drawn := 1\<rparr>)"
proof -
  let ?g = "example_globals [Raises (ClientError null_message)]"
  let ?w1 = "example_world\<lparr>invocations := [], drawn := 1\<rparr>"
  let ?w2 = "example_world\<lparr>invocations :=
        [\<lparr>agentId = lit ''AMA9OYJSAA'', agentAliasId = lit ''V0XBFRQZUC'',
          sessionId = str_uuid (uuid4 0), inputText = example_query\<rparr>], drawn := 1\<rparr>"
  have c: "fst (check_aws_connection ?g)" by (rule example_connected)
  have d: "default_session None example_world = (str_uuid (uuid4 0), ?w1)"
    using example_new_uuid [of "[]"] by (simp add: example_world_def)
  have a: "attempt ?g (str_uuid (uuid4 0)) example_query ?w1 =
             (Inl (ClientError null_message), ?w2)"
    by (simp add: attempt_def example_invoke scripted_def example_world_def)
  have x: "\<not> context_window_exceeded (ClientError null_message)"
    by (simp add: is_context_window_def str_client_error_def null_message_def retry_info_def
        lit_def lower_def lower_cp_def)
  have k: "err_code null_message \<noteq> lit ''ResourceNotFoundException''"
      "err_code null_message \<noteq> lit ''AccessDeniedException''"
      "err_message null_message = None"
    by (simp_all add: null_message_def lit_def)
  have "query_cooking_agent ?g example_query None example_world =
          on_client_error ?g null_message (Some (str_uuid (uuid4 0))) ?w2"
    using first_error_not_retried [OF c d a x] by simp
  then show ?thesis
    using k by (simp add: on_client_error_def Let_def)
qed

text \<open>
  That exception is the only one that can leave the method, and every dictionary that is
  returned carries a message that is not empty.
\<close>

lemma only_attribute_error_escapes:
  "(\<exists>r w'. query_cooking_agent g query session w = (Inr r, w') \<and> response r \<noteq> []) \<or>
   (\<exists>w'. query_cooking_agent g query session w = (Inl (OtherException attribute_error_lower), w'))"
proof (cases "query_cooking_agent g query session w")
  case (Pair a w')
  show ?thesis
  proof (cases a)
    case (Inr r)
    with Pair query_well_formed [of g query session w r w'] show ?thesis
      by (simp add: well_formed_def)
  next
    case (Inl x)
    with Pair query_raises [of g query session w x w'] show ?thesis by simp
  qed
qed

end
